theory Spec2Isabelle
  imports Main
begin

section \<open>JavaScript values used by the wizard\<close>

text \<open>
  Every image in the application is a DataURL, a JavaScript string. Strings are compared
  with \<open>===\<close>, which on strings is equality of contents, so HOL equality on \<open>string\<close>
  is the comparison the source performs. A string is falsy exactly when it is empty; the
  value \<open>undefined\<close> (an out-of-range array read) is \<open>None\<close>.
\<close>

definition truthy :: "string \<Rightarrow> bool" where
  "truthy s = (s \<noteq> [])"

text \<open>\<open>s.startsWith(p)\<close>.\<close>

definition startsWith :: "string \<Rightarrow> string \<Rightarrow> bool" where
  "startsWith s p = (take (length p) s = p)"

text \<open>\<open>xs.slice(b, e)\<close> for non-negative integers \<open>b\<close> and \<open>e\<close>: the elements at
  positions \<open>b\<close> up to \<open>e - 1\<close>, as many of them as exist.\<close>

definition slice :: "'a list \<Rightarrow> nat \<Rightarrow> nat \<Rightarrow> 'a list" where
  "slice xs b e = take (e - b) (drop b xs)"

text \<open>\<open>xs[i]\<close>: \<open>undefined\<close> outside the array.\<close>

definition at_index :: "'a list \<Rightarrow> nat \<Rightarrow> 'a option" where
  "at_index xs i = (if i < length xs then Some (xs ! i) else None)"

text \<open>The test \<open>!x || !x.startsWith('data:image')\<close> that guards every place where a
  DataURL enters the state; it is written here once, positively.\<close>

definition validDataUrl :: "string \<Rightarrow> bool" where
  "validDataUrl s = (truthy s \<and> startsWith s ''data:image'')"

section \<open>App.tsx: the image slots\<close>

text \<open>
  The state hooks of \<open>App\<close> that the image handlers read or write. \<open>ocrData\<close> is
  \<open>null\<close> until an OCR call succeeds; the payload type is left open.
\<close>

record 'd app =
  activeStep :: int
  imageSrc :: string
  originalImage :: string
  editedImage :: string
  enhancedImage :: string
  ocrData :: "'d option"
  isReverso :: bool
  loading :: bool
  enhancing :: bool
  isImageLoading :: bool

text \<open>\<open>handleImageEdit\<close>, the \<open>onImageChange\<close> callback handed to the editor. It shows
  no toast; an invalid argument is logged to the console and dropped.\<close>

definition handleImageEdit :: "string option \<Rightarrow> 'd app \<Rightarrow> 'd app" where
  "handleImageEdit editedImageSrc a =
     (case editedImageSrc of
        None \<Rightarrow> a
      | Some e \<Rightarrow>
          if \<not> validDataUrl e then a
          else a\<lparr>imageSrc := e, editedImage := e\<rparr>)"

section \<open>ImageEditor: the edit history\<close>

text \<open>
  The state hooks of \<open>ImageEditor\<close> that the history handlers and the reinitialisation
  effect read or write. \<open>cropSet\<close> records whether \<open>crop\<close> is defined; \<open>rotateDeg\<close> is
  the hook \<open>rotate\<close>.
\<close>

record editor =
  history :: "string list"
  historyIndex :: nat
  rotateDeg :: int
  cropSet :: bool
  isCropping :: bool
  imageLoaded :: bool
  imageError :: string

text \<open>\<open>useState([imageSrc])\<close>, \<open>useState(0)\<close> and the other initial values, at mount.\<close>

definition mountEditor :: "string \<Rightarrow> editor" where
  "mountEditor src =
     \<lparr>history = [src], historyIndex = 0, rotateDeg = 0, cropSet = False,
      isCropping = False, imageLoaded = False, imageError = []\<rparr>"

text \<open>The body of \<open>useEffect(..., [imageSrc])\<close>, up to the asynchronous preload.\<close>

definition reinitEffect :: "string \<Rightarrow> editor \<Rightarrow> editor" where
  "reinitEffect src ed =
     (if \<not> validDataUrl src
      then ed\<lparr>imageError := ''La imagen no es valida'', imageLoaded := False\<rparr>
      else ed\<lparr>imageLoaded := False, imageError := [], rotateDeg := 0, cropSet := False,
              isCropping := False, history := [src], historyIndex := 0\<rparr>)"

text \<open>The lines shared by \<open>applyRotation\<close> and \<open>applyCrop\<close> under the comment
  "Guardar en historial": slice, push, \<open>setHistory\<close>, \<open>setHistoryIndex\<close>.\<close>

definition commit :: "string \<Rightarrow> editor \<Rightarrow> editor" where
  "commit newImageData ed =
     (let newHistory = slice (history ed) 0 (historyIndex ed + 1) @ [newImageData]
      in ed\<lparr>history := newHistory, historyIndex := length newHistory - 1\<rparr>)"

text \<open>The guards of \<open>undo\<close> and \<open>redo\<close>, which also disable the two buttons.\<close>

definition canUndo :: "editor \<Rightarrow> bool" where
  "canUndo ed = (historyIndex ed > 0)"

definition canRedo :: "editor \<Rightarrow> bool" where
  "canRedo ed = (int (historyIndex ed) < int (length (history ed)) - 1)"

text \<open>\<open>history[historyIndex]\<close>, the image the editor displays.\<close>

definition currentEntry :: "editor \<Rightarrow> string option" where
  "currentEntry ed = at_index (history ed) (historyIndex ed)"

text \<open>\<open>undo\<close> and \<open>redo\<close>: the editor's own state after the handler, and the argument
  it passes to \<open>onImageChange\<close> (\<open>None\<close> when the guard fails and nothing is sent).\<close>

definition undo :: "editor \<Rightarrow> editor \<times> string option option" where
  "undo ed =
     (if historyIndex ed > 0
      then (let newIndex = historyIndex ed - 1;
                previousImage = at_index (history ed) newIndex
            in (ed\<lparr>historyIndex := newIndex, rotateDeg := 0\<rparr>, Some previousImage))
      else (ed, None))"

definition redo :: "editor \<Rightarrow> editor \<times> string option option" where
  "redo ed =
     (if int (historyIndex ed) < int (length (history ed)) - 1
      then (let newIndex = historyIndex ed + 1;
                nextImage = at_index (history ed) newIndex
            in (ed\<lparr>historyIndex := newIndex, rotateDeg := 0\<rparr>, Some nextImage))
      else (ed, None))"

section \<open>The editor mounted in the wizard\<close>

text \<open>
  While the wizard is at step 1 the editor is mounted with the props
  \<open>imageSrc={imageSrc}\<close> and \<open>onImageChange={handleImageEdit}\<close>. A handler runs to its
  end with all its state updates batched (the application is mounted with
  \<open>createRoot\<close>); the component then renders again and the effect runs when its
  dependency \<open>imageSrc\<close> differs from the value of the previous render.
\<close>

definition afterRender :: "string \<Rightarrow> editor \<times> 'd app \<Rightarrow> editor \<times> 'd app" where
  "afterRender prevSrc s =
     (case s of (ed, a) \<Rightarrow>
        if imageSrc a \<noteq> prevSrc then (reinitEffect (imageSrc a) ed, a) else (ed, a))"

text \<open>First mount at step 1: initial hooks, then the effect.\<close>

definition mountStep :: "'d app \<Rightarrow> editor \<times> 'd app" where
  "mountStep a = (reinitEffect (imageSrc a) (mountEditor (imageSrc a)), a)"

text \<open>The timeout callback of \<open>applyRotation\<close> once the canvas has produced
  \<open>newImageData\<close>: notify the parent, push to the history, reset the preview angle.\<close>

definition applyRotationStep :: "string \<Rightarrow> editor \<times> 'd app \<Rightarrow> editor \<times> 'd app" where
  "applyRotationStep newImageData s =
     (case s of (ed, a) \<Rightarrow>
        afterRender (imageSrc a)
          ((commit newImageData ed)\<lparr>rotateDeg := 0\<rparr>,
           handleImageEdit (Some newImageData) a))"

text \<open>The same for \<open>applyCrop\<close>, which also leaves crop mode.\<close>

definition applyCropStep :: "string \<Rightarrow> editor \<times> 'd app \<Rightarrow> editor \<times> 'd app" where
  "applyCropStep croppedImageData s =
     (case s of (ed, a) \<Rightarrow>
        afterRender (imageSrc a)
          ((commit croppedImageData ed)\<lparr>cropSet := False, isCropping := False, rotateDeg := 0\<rparr>,
           handleImageEdit (Some croppedImageData) a))"

definition notifyParent :: "string option option \<Rightarrow> 'd app \<Rightarrow> 'd app" where
  "notifyParent msg a = (case msg of None \<Rightarrow> a | Some v \<Rightarrow> handleImageEdit v a)"

definition undoStep :: "editor \<times> 'd app \<Rightarrow> editor \<times> 'd app" where
  "undoStep s =
     (case s of (ed, a) \<Rightarrow>
        afterRender (imageSrc a) (fst (undo ed), notifyParent (snd (undo ed)) a))"

definition redoStep :: "editor \<times> 'd app \<Rightarrow> editor \<times> 'd app" where
  "redoStep s =
     (case s of (ed, a) \<Rightarrow>
        afterRender (imageSrc a) (fst (redo ed), notifyParent (snd (redo ed)) a))"

text \<open>A user action on the mounted editor, and a run of such actions.\<close>

datatype action = Rotate string | Crop string | Undo | Redo

fun step :: "action \<Rightarrow> editor \<times> 'd app \<Rightarrow> editor \<times> 'd app" where
  "step (Rotate d) s = applyRotationStep d s"
| "step (Crop d) s = applyCropStep d s"
| "step Undo s = undoStep s"
| "step Redo s = redoStep s"

fun run :: "action list \<Rightarrow> editor \<times> 'd app \<Rightarrow> editor \<times> 'd app" where
  "run [] s = s"
| "run (x # xs) s = run xs (step x s)"

section \<open>App.tsx: adopting, selecting and resetting images\<close>

text \<open>
  What a handler shows to the user: a toast of \<open>react-toastify\<close> with its severity, or
  a browser \<open>alert\<close>. Messages are written without their emoji prefix. Console output
  is not modelled.
\<close>

datatype severity = Success | Error | Info | Warning

datatype notice = Toast severity string | Alert string

text \<open>A \<open>File\<close>: its name, its MIME type and its bytes; \<open>file.size\<close> is their number.\<close>

record fileObj =
  fileName :: string
  fileType :: string
  fileBytes :: string

definition fileSize :: "fileObj \<Rightarrow> nat" where
  "fileSize f = length (fileBytes f)"

text \<open>How a \<open>FileReader\<close> finishes: \<open>onload\<close> with a result, \<open>onerror\<close> or \<open>onabort\<close>.\<close>

datatype readerOutcome = Loaded string | ReadError | ReadAbort

text \<open>\<open>handleImageSelect\<close>, with the outcome of \<open>readAsDataURL(file)\<close> supplied. A \<open>File\<close>
  object is never falsy, so the first guard of the source cannot fire.\<close>

definition handleImageSelect ::
  "(fileObj \<Rightarrow> readerOutcome) \<Rightarrow> fileObj \<Rightarrow> 'd app \<Rightarrow> 'd app \<times> notice list" where
  "handleImageSelect readAsDataURL f a =
     (if \<not> startsWith (fileType f) ''image/''
      then (a, [Toast Error ''El archivo no es una imagen valida''])
      else
        (case readAsDataURL f of
           Loaded result \<Rightarrow>
             if \<not> validDataUrl result
             then (a\<lparr>isImageLoading := False\<rparr>,
                   [Toast Error ''Error: La imagen no se convirtio correctamente''])
             else (a\<lparr>imageSrc := result, originalImage := result, editedImage := result,
                      enhancedImage := [], isImageLoading := False, activeStep := 1\<rparr>,
                   [Toast Success ''Imagen cargada correctamente''])
         | ReadError \<Rightarrow>
             (a\<lparr>isImageLoading := False\<rparr>, [Toast Error ''Error al cargar la imagen''])
         | ReadAbort \<Rightarrow>
             (a\<lparr>isImageLoading := False\<rparr>, [Toast Warning ''Lectura de imagen cancelada''])))"

definition handleCameraCapture :: "string \<Rightarrow> 'd app \<Rightarrow> 'd app \<times> notice list" where
  "handleCameraCapture capturedImageSrc a =
     (if \<not> validDataUrl capturedImageSrc
      then (a, [Toast Error ''La foto capturada no es valida''])
      else (a\<lparr>imageSrc := capturedImageSrc, originalImage := capturedImageSrc,
               editedImage := capturedImageSrc, enhancedImage := [],
               isImageLoading := False, activeStep := 1\<rparr>,
            [Toast Success ''Foto capturada correctamente'']))"

text \<open>The union type \<open>'original' | 'edited' | 'enhanced'\<close>.\<close>

datatype imageType = Original | Edited | Enhanced

text \<open>\<open>handleSelectImage\<close>: \<open>selectedImage\<close> starts empty; the \<open>enhanced\<close> case assigns
  and toasts only when \<open>enhancedImage\<close> is truthy; \<open>setImageSrc\<close> runs only for a truthy
  selection.\<close>

definition handleSelectImage :: "imageType \<Rightarrow> 'd app \<Rightarrow> 'd app \<times> notice list" where
  "handleSelectImage t a =
     (let (selectedImage, notes) =
            (case t of
               Original \<Rightarrow> (originalImage a, [Toast Info ''Usando imagen original''])
             | Edited \<Rightarrow> (editedImage a, [Toast Info ''Usando imagen editada''])
             | Enhanced \<Rightarrow>
                 if truthy (enhancedImage a)
                 then (enhancedImage a, [Toast Info ''Usando imagen mejorada por IA''])
                 else ([], []))
      in (if truthy selectedImage then a\<lparr>imageSrc := selectedImage\<rparr> else a, notes))"

definition handleResetToOriginal :: "'d app \<Rightarrow> 'd app \<times> notice list" where
  "handleResetToOriginal a =
     (if truthy (originalImage a)
      then (a\<lparr>imageSrc := originalImage a, editedImage := originalImage a, enhancedImage := []\<rparr>,
            [Toast Success ''Imagen restablecida a la version original''])
      else (a, [Toast Error ''No hay imagen original disponible'']))"

definition handleReset :: "'d app \<Rightarrow> 'd app \<times> notice list" where
  "handleReset a =
     (a\<lparr>activeStep := 0, imageSrc := [], originalImage := [], editedImage := [],
        enhancedImage := [], ocrData := None, isImageLoading := False\<rparr>,
      [Toast Info ''Aplicacion reiniciada''])"

section \<open>PreviewPanel: classifying the current image\<close>

text \<open>\<open>getCurrentImageType\<close> over the four props, in the order of the source.\<close>

definition getCurrentImageType :: "string \<Rightarrow> string \<Rightarrow> string \<Rightarrow> string \<Rightarrow> string" where
  "getCurrentImageType currentImage originalImg editedImg enhancedImg =
     (if currentImage = originalImg then ''original''
      else if currentImage = editedImg then ''edited''
      else if currentImage = enhancedImg then ''enhanced''
      else ''unknown'')"

text \<open>The props \<open>App\<close> passes at step 2.\<close>

definition previewType :: "'d app \<Rightarrow> string" where
  "previewType a =
     getCurrentImageType (imageSrc a) (originalImage a) (editedImage a) (enhancedImage a)"

text \<open>The current image is one of the three slots.\<close>

definition classified :: "'d app \<Rightarrow> bool" where
  "classified a =
     (imageSrc a = originalImage a \<or> imageSrc a = editedImage a \<or> imageSrc a = enhancedImage a)"

section \<open>api.ts: the HTTP client and its interceptors\<close>

text \<open>
  The part of the browser the service layer touches: \<open>localStorage\<close> (\<open>getItem\<close> of a
  missing key is \<open>null\<close>, here \<open>None\<close>) and \<open>window.location.pathname\<close>.
\<close>

record browser =
  localStorage :: "string \<rightharpoonup> string"
  pathname :: string

text \<open>An error object as the handlers inspect it: \<open>name\<close>, \<open>message\<close>, \<open>code\<close> and
  \<open>response?.status\<close>.\<close>

record jsError =
  name :: string
  message :: string
  code :: "string option"
  responseStatus :: "nat option"

text \<open>The request as the backend sees it: the path, the \<open>Authorization\<close> header and the
  form field \<open>imagen\<close>.\<close>

record request =
  url :: string
  authorization :: "string option"
  imagen :: fileObj

text \<open>\<open>s.includes(p)\<close>.\<close>

fun includesStr :: "string \<Rightarrow> string \<Rightarrow> bool" where
  "includesStr [] p = (p = [])"
| "includesStr (c # cs) p = (startsWith (c # cs) p \<or> includesStr cs p)"

definition requestInterceptor :: "browser \<Rightarrow> request \<Rightarrow> request" where
  "requestInterceptor b config =
     (case localStorage b ''jwt_token'' of
        None \<Rightarrow> config
      | Some token \<Rightarrow>
          if truthy token \<and> includesStr (url config) ''/ocr''
          then config\<lparr>authorization := Some (''Bearer '' @ token)\<rparr>
          else config)"

text \<open>The first line of the message of the timeout error built by the interceptor.\<close>

definition timeoutMessage :: string where
  "timeoutMessage = ''Timeout excedido (30s). Esto puede deberse a: ...''"

text \<open>The rejection handler of \<open>api.interceptors.response\<close>: the error it rejects with and
  what it does to the browser. Assigning \<open>window.location.href = '/login'\<close> makes the
  pathname \<open>/login\<close>.\<close>

definition responseInterceptor :: "jsError \<Rightarrow> browser \<Rightarrow> jsError \<times> browser" where
  "responseInterceptor error b =
     (if code error = Some ''ECONNABORTED'' \<or> includesStr (message error) ''timeout''
      then (\<lparr>name = ''TimeoutError'', message = timeoutMessage, code = None,
             responseStatus = None\<rparr>, b)
      else if responseStatus error = Some 401
      then (\<lparr>name = ''AuthError'',
             message = ''Tu sesion ha expirado. Por favor, inicia sesion nuevamente.'',
             code = None, responseStatus = None\<rparr>,
            b\<lparr>localStorage :=
                 (localStorage b)(''jwt_token'' := None, ''laravel_token'' := None,
                                  ''user_data'' := None),
              pathname := (if pathname b \<noteq> ''/login'' then ''/login'' else pathname b)\<rparr>)
      else (error, b))"

text \<open>\<open>api.post(path, formData)\<close> against a backend that answers a request with response
  data or fails with an error (which includesStr the 30 s timeout of the client).\<close>

definition apiPost ::
  "(request \<Rightarrow> jsError + 'r) \<Rightarrow> string \<Rightarrow> fileObj \<Rightarrow> browser \<Rightarrow> (jsError + 'r) \<times> browser" where
  "apiPost backend path f b =
     (case backend (requestInterceptor b \<lparr>url = path, authorization = None, imagen = f\<rparr>) of
        Inr response \<Rightarrow> (Inr response, b)
      | Inl error \<Rightarrow> (case responseInterceptor error b of (e, b') \<Rightarrow> (Inl e, b')))"

definition processAnverso ::
  "(request \<Rightarrow> jsError + 'r) \<Rightarrow> fileObj \<Rightarrow> browser \<Rightarrow> (jsError + 'r) \<times> browser" where
  "processAnverso backend f b = apiPost backend ''/ocr'' f b"

definition processReverso ::
  "(request \<Rightarrow> jsError + 'r) \<Rightarrow> fileObj \<Rightarrow> browser \<Rightarrow> (jsError + 'r) \<times> browser" where
  "processReverso backend f b = apiPost backend ''/ocrreverso'' f b"

definition enhanceImage ::
  "(request \<Rightarrow> jsError + 'r) \<Rightarrow> fileObj \<Rightarrow> browser \<Rightarrow> (jsError + 'r) \<times> browser" where
  "enhanceImage backend f b = apiPost backend ''/enhance'' f b"

section \<open>App.tsx: enhancing and processing\<close>

text \<open>
  Both handlers first turn the current DataURL into a blob with \<open>fetch\<close>, which may
  reject; \<open>fetchBlob\<close> is that step. Each is modelled from its call to its last state
  update, as one transition.
\<close>

definition handleEnhanceImage ::
  "(string \<Rightarrow> jsError + string) \<Rightarrow> (request \<Rightarrow> jsError + 'r) \<Rightarrow> ('r \<Rightarrow> readerOutcome) \<Rightarrow>
   browser \<Rightarrow> 'd app \<Rightarrow> ('d app \<times> notice list) \<times> browser" where
  "handleEnhanceImage fetchBlob backend readAsDataURL b a =
     (if \<not> truthy (imageSrc a) then ((a, [Toast Error ''No hay imagen para mejorar'']), b)
      else
        (case fetchBlob (imageSrc a) of
           Inl error \<Rightarrow> ((a\<lparr>enhancing := False\<rparr>, [Toast Error ''Error al mejorar la imagen'']), b)
         | Inr blob \<Rightarrow>
             (case enhanceImage backend
                     \<lparr>fileName = ''image.jpg'', fileType = ''image/jpeg'', fileBytes = blob\<rparr> b of
                (Inl error, b') \<Rightarrow>
                  ((a\<lparr>enhancing := False\<rparr>, [Toast Error ''Error al mejorar la imagen'']), b')
              | (Inr data, b') \<Rightarrow>
                  (case readAsDataURL data of
                     Loaded enhanced \<Rightarrow>
                       if validDataUrl enhanced
                       then ((a\<lparr>enhancedImage := enhanced, enhancing := False\<rparr>,
                              [Toast Success ''Imagen mejorada con exito'']), b')
                       else ((a\<lparr>enhancing := False\<rparr>,
                              [Toast Error ''La imagen mejorada no es valida'']), b')
                   | ReadError \<Rightarrow> ((a\<lparr>enhancing := False\<rparr>, []), b')
                   | ReadAbort \<Rightarrow> ((a\<lparr>enhancing := False\<rparr>, []), b')))))"

text \<open>The toast of the \<open>catch\<close> block of \<open>handleProcessOCR\<close>.\<close>

definition ocrErrorToast :: "jsError \<Rightarrow> notice" where
  "ocrErrorToast error =
     (if name error = ''TimeoutError'' then Toast Error (message error)
      else Toast Error
             (''Error en OCR: '' @
              (if truthy (message error) then message error else ''Error desconocido'')))"

definition handleProcessOCR ::
  "(string \<Rightarrow> jsError + string) \<Rightarrow> (request \<Rightarrow> jsError + 'd) \<Rightarrow>
   browser \<Rightarrow> 'd app \<Rightarrow> ('d app \<times> notice list) \<times> browser" where
  "handleProcessOCR fetchBlob backend b a =
     (if \<not> truthy (imageSrc a) then ((a, [Toast Error ''No hay imagen para procesar'']), b)
      else
        (case fetchBlob (imageSrc a) of
           Inl error \<Rightarrow> ((a\<lparr>loading := False\<rparr>, [ocrErrorToast error]), b)
         | Inr blob \<Rightarrow>
             (let f = \<lparr>fileName = ''ine.jpg'', fileType = ''image/jpeg'', fileBytes = blob\<rparr>;
                  endpoint = (if isReverso a then processReverso else processAnverso)
              in case endpoint backend f b of
                   (Inr d, b') \<Rightarrow>
                     ((a\<lparr>ocrData := Some d, activeStep := 3, loading := False\<rparr>,
                       [Toast Success ''OCR procesado correctamente'']), b')
                 | (Inl error, b') \<Rightarrow>
                     ((a\<lparr>loading := False\<rparr>, [ocrErrorToast error]), b'))))"

text \<open>\<open>handleNext\<close>: both tests read the \<open>activeStep\<close> of the render in which the
  button was pressed, so at most one of them fires.\<close>

definition handleNext ::
  "(string \<Rightarrow> jsError + string) \<Rightarrow> (request \<Rightarrow> jsError + 'd) \<Rightarrow>
   browser \<Rightarrow> 'd app \<Rightarrow> ('d app \<times> notice list) \<times> browser" where
  "handleNext fetchBlob backend b a =
     (if activeStep a = 1
      then (if validDataUrl (imageSrc a)
            then ((a\<lparr>activeStep := 2\<rparr>, [Toast Info ''Avanzando a previsualizacion'']), b)
            else ((a, [Toast Error ''No hay una imagen valida para continuar'']), b))
      else if activeStep a = 2 then handleProcessOCR fetchBlob backend b a
      else ((a, []), b))"

text \<open>For stating what \<open>handleProcessOCR\<close> sends: the request that reaches the backend
  for a blob of the current image, on the path of the side mode and after the request
  interceptor.\<close>

definition ocrRequest :: "bool \<Rightarrow> string \<Rightarrow> browser \<Rightarrow> request" where
  "ocrRequest reverso blob b =
     requestInterceptor b
       \<lparr>url = (if reverso then ''/ocrreverso'' else ''/ocr''), authorization = None,
        imagen = \<lparr>fileName = ''ine.jpg'', fileType = ''image/jpeg'', fileBytes = blob\<rparr>\<rparr>"

section \<open>ImageUploader: validating a chosen file\<close>

text \<open>
  \<open>handleFileChange\<close> over the \<open>FileList\<close> of the event (\<open>null\<close> and the empty list
  behave alike): the new \<open>selectedFile\<close>, the file handed to \<open>onImageSelect\<close> if any,
  and the alerts shown.
\<close>

definition handleFileChange ::
  "fileObj list \<Rightarrow> fileObj option \<Rightarrow> fileObj option \<times> fileObj option \<times> notice list" where
  "handleFileChange files selectedFile =
     (case files of
        [] \<Rightarrow> (selectedFile, None, [])
      | f # _ \<Rightarrow>
          if \<not> startsWith (fileType f) ''image/''
          then (selectedFile, None,
                [Alert ''Por favor, selecciona un archivo de imagen (JPEG, PNG, etc.)''])
          else if fileSize f > 10 * 1024 * 1024
          then (selectedFile, None, [Alert ''El archivo es demasiado grande. Maximo 10MB.''])
          else (Some f, Some f, []))"

text \<open>\<open>handleDrop\<close> forwards the dropped files when there is a first one.\<close>

definition handleDrop ::
  "fileObj list \<Rightarrow> fileObj option \<Rightarrow> fileObj option \<times> fileObj option \<times> notice list" where
  "handleDrop files selectedFile =
     (if files \<noteq> [] then handleFileChange files selectedFile else (selectedFile, None, []))"

text \<open>The file reaches \<open>App\<close>: \<open>onImageSelect\<close> is \<open>handleImageSelect\<close>.\<close>

definition uploadFile ::
  "(fileObj \<Rightarrow> readerOutcome) \<Rightarrow> fileObj list \<Rightarrow> 'd app \<Rightarrow> 'd app \<times> notice list" where
  "uploadFile readAsDataURL files a =
     (case handleFileChange files None of
        (_, None, notes) \<Rightarrow> (a, notes)
      | (_, Some f, notes) \<Rightarrow>
          (case handleImageSelect readAsDataURL f a of (a', notes') \<Rightarrow> (a', notes @ notes')))"

section \<open>authService: is the session active\<close>

text \<open>
  \<open>parseInt(s)\<close> without a radix, after ECMAScript: leading white space is skipped, a
  sign is read, a prefix \<open>0x\<close> or \<open>0X\<close> selects radix 16, and the longest run of digits
  of the radix is the value; with no digit the result is \<open>NaN\<close>, here \<open>None\<close>. Numbers
  are exact integers, as JavaScript's are below \<open>2^53\<close>.
\<close>

definition isWhiteSpace :: "char \<Rightarrow> bool" where
  "isWhiteSpace c = (c \<in> set [CHR '' '', CHR 0x09, CHR 0x0A, CHR 0x0B, CHR 0x0C, CHR 0x0D])"

definition digitValue :: "char \<Rightarrow> nat option" where
  "digitValue c =
     (let n = (of_char c :: nat)
      in if 48 \<le> n \<and> n \<le> 57 then Some (n - 48)
         else if 97 \<le> n \<and> n \<le> 122 then Some (n - 87)
         else if 65 \<le> n \<and> n \<le> 90 then Some (n - 55)
         else None)"

fun digitsPrefix :: "nat \<Rightarrow> string \<Rightarrow> nat list" where
  "digitsPrefix R [] = []"
| "digitsPrefix R (c # cs) =
     (case digitValue c of
        None \<Rightarrow> []
      | Some d \<Rightarrow> if d < R then d # digitsPrefix R cs else [])"

definition digitsToNat :: "nat \<Rightarrow> nat list \<Rightarrow> nat" where
  "digitsToNat R ds = foldl (\<lambda>acc d. acc * R + d) 0 ds"

definition parseInt :: "string \<Rightarrow> int option" where
  "parseInt inputString =
     (let s = dropWhile isWhiteSpace inputString;
          (sign, s1) =
            (case s of
               [] \<Rightarrow> (1, s)
             | c # cs \<Rightarrow>
                 if c = CHR ''-'' then (- 1, cs)
                 else if c = CHR ''+'' then (1, cs) else (1, s));
          (R, s2) =
            (if startsWith s1 ''0x'' \<or> startsWith s1 ''0X'' then (16, drop 2 s1) else (10, s1));
          ds = digitsPrefix R s2
      in if ds = [] then None else Some (sign * int (digitsToNat R ds)))"

text \<open>\<open>isSessionActive\<close>, at the time \<open>Date.now()\<close> = \<open>currentTime\<close> (milliseconds). A
  comparison with \<open>NaN\<close> is false.\<close>

definition isSessionActive :: "browser \<Rightarrow> int \<Rightarrow> bool" where
  "isSessionActive b currentTime =
     (case (localStorage b ''jwt_token'', localStorage b ''token_expiry'') of
        (Some token, Some expiry) \<Rightarrow>
          if \<not> truthy token \<or> \<not> truthy expiry then False
          else (case parseInt expiry of
                  None \<Rightarrow> False
                | Some expiryTime \<Rightarrow> currentTime < expiryTime - 60000)
      | _ \<Rightarrow> False)"

section \<open>An invariant of the mounted editor, and sample states\<close>

text \<open>
  Every entry of the history is the parent's current image or a string the parent
  refuses (such as \<open>data:,\<close>, the DataURL of an empty canvas), and the index is inside
  the history.
\<close>

definition synced :: "editor \<times> 'd app \<Rightarrow> bool" where
  "synced s =
     (case s of (ed, a) \<Rightarrow>
        historyIndex ed < length (history ed) \<and>
        (\<forall>e \<in> set (history ed). e = imageSrc a \<or> \<not> validDataUrl e))"

definition imgS :: string where
  "imgS = ''data:image/png;base64,S''"

definition imgR :: string where
  "imgR = ''data:image/jpeg;base64,R''"

definition imgE1 :: string where
  "imgE1 = ''data:image/png;base64,E1''"

definition imgE2 :: string where
  "imgE2 = ''data:image/png;base64,E2''"

text \<open>The initial hooks of \<open>App\<close>, and the state after the camera has delivered \<open>imgS\<close>.\<close>

definition app0 :: "unit app" where
  "app0 =
     \<lparr>activeStep = 0, imageSrc = [], originalImage = [], editedImage = [],
      enhancedImage = [], ocrData = None, isReverso = False, loading = False,
      enhancing = False, isImageLoading = False\<rparr>"

definition adopted :: "unit app" where
  "adopted = fst (handleCameraCapture imgS app0)"

text \<open>The history \<open>[A, B, C]\<close> at index 2.\<close>

definition edABC :: editor where
  "edABC =
     \<lparr>history = [''A'', ''B'', ''C''], historyIndex = 2, rotateDeg = 0, cropSet = False,
      isCropping = False, imageLoaded = True, imageError = []\<rparr>"

text \<open>The editor after a crop of an empty selection, whose canvas encodes to \<open>data:,\<close>.\<close>

definition edEmptyCrop :: editor where
  "edEmptyCrop = fst (run [Crop ''data:,''] (mountStep adopted))"

text \<open>A browser with an empty store, a \<open>fetch\<close> that yields the text of the URL as the
  blob, an enhance backend with a fixed answer, and a reader that wraps a blob as a PNG
  DataURL.\<close>

definition browser0 :: browser where
  "browser0 = \<lparr>localStorage = Map.empty, pathname = ''/''\<rparr>"

definition fetchOk :: "string \<Rightarrow> jsError + string" where
  "fetchOk u = Inr u"

definition enhanceBackend :: "string \<Rightarrow> request \<Rightarrow> jsError + string" where
  "enhanceBackend answer r = Inr answer"

definition readPng :: "string \<Rightarrow> readerOutcome" where
  "readPng d = Loaded (''data:image/png;base64,'' @ d)"

text \<open>Enhance once, select the enhanced image, enhance again.\<close>

definition enhancedOnce :: "unit app" where
  "enhancedOnce =
     fst (fst (handleEnhanceImage fetchOk (enhanceBackend ''E1'') readPng browser0 adopted))"

definition usingEnhanced :: "unit app" where
  "usingEnhanced = fst (handleSelectImage Enhanced enhancedOnce)"

definition enhancedTwice :: "unit app" where
  "enhancedTwice =
     fst (fst (handleEnhanceImage fetchOk (enhanceBackend ''E2'') readPng browser0
                 usingEnhanced))"

text \<open>The wizard at step 2 on \<open>imgS\<close>; an OCR backend that answers, and one whose request
  runs into the client's timeout.\<close>

definition atPreview :: "unit app" where
  "atPreview = fst (fst (handleNext fetchOk (\<lambda>r. Inr ()) browser0 adopted))"

definition ocrBackendOk :: "request \<Rightarrow> jsError + unit" where
  "ocrBackendOk r = Inr ()"

definition axiosTimeout :: jsError where
  "axiosTimeout =
     \<lparr>name = ''AxiosError'', message = ''timeout of 30000ms exceeded'',
      code = Some ''ECONNABORTED'', responseStatus = None\<rparr>"

definition ocrBackendTimeout :: "request \<Rightarrow> jsError + unit" where
  "ocrBackendTimeout r = Inl axiosTimeout"

text \<open>A backend that answers 401, one that answers 500, and a \<open>fetch\<close> that rejects.\<close>

definition axios401 :: jsError where
  "axios401 =
     \<lparr>name = ''AxiosError'', message = ''Request failed with status code 401'',
      code = Some ''ERR_BAD_REQUEST'', responseStatus = Some 401\<rparr>"

definition axios500 :: jsError where
  "axios500 =
     \<lparr>name = ''AxiosError'', message = ''Request failed with status code 500'',
      code = Some ''ERR_BAD_RESPONSE'', responseStatus = Some 500\<rparr>"

definition ocrBackend401 :: "request \<Rightarrow> jsError + unit" where
  "ocrBackend401 r = Inl axios401"

definition ocrBackend500 :: "request \<Rightarrow> jsError + unit" where
  "ocrBackend500 r = Inl axios500"

definition fetchError :: jsError where
  "fetchError =
     \<lparr>name = ''TypeError'', message = ''Failed to fetch'', code = None,
      responseStatus = None\<rparr>"

definition fetchFail :: "string \<Rightarrow> jsError + string" where
  "fetchFail u = Inl fetchError"

text \<open>Three files: a small JPEG, a small GIF, and a PNG of 10 MiB plus one byte.\<close>

definition smallJpeg :: fileObj where
  "smallJpeg = \<lparr>fileName = ''ine.jpg'', fileType = ''image/jpeg'', fileBytes = ''abc''\<rparr>"

definition smallGif :: fileObj where
  "smallGif = \<lparr>fileName = ''ine.gif'', fileType = ''image/gif'', fileBytes = ''abc''\<rparr>"

definition bigPng :: fileObj where
  "bigPng =
     \<lparr>fileName = ''ine.png'', fileType = ''image/png'',
      fileBytes = replicate (10 * 1024 * 1024 + 1) (CHR ''x'')\<rparr>"

text \<open>A \<open>FileReader\<close> that succeeds.\<close>

definition readerOk :: "fileObj \<Rightarrow> readerOutcome" where
  "readerOk f = Loaded (''data:'' @ fileType f @ '';base64,'' @ fileBytes f)"

text \<open>A store after a login whose token expires at time 1000000.\<close>

definition loggedIn :: browser where
  "loggedIn =
     \<lparr>localStorage = [''jwt_token'' \<mapsto> ''abc'', ''token_expiry'' \<mapsto> ''1000000''],
      pathname = ''/''\<rparr>"

section \<open>The edit history\<close>

lemma commit_history: "history (commit n ed) = take (historyIndex ed + 1) (history ed) @ [n]"
  by (simp add: commit_def slice_def)

lemma commit_index: "historyIndex (commit n ed) = length (history (commit n ed)) - 1"
  by (simp add: commit_def Let_def)

lemma commit_no_redo: "\<not> canRedo (commit n ed)"
  by (simp add: canRedo_def commit_def Let_def)

lemma reinit_no_redo: "\<not> canRedo ed \<Longrightarrow> \<not> canRedo (reinitEffect src ed)"
  by (simp add: canRedo_def reinitEffect_def)

lemma afterRender_no_redo: "\<not> canRedo (fst s) \<Longrightarrow> \<not> canRedo (fst (afterRender p s))"
  by (cases s) (simp add: afterRender_def reinit_no_redo)

lemma canRedo_update:
  "canRedo (ed\<lparr>rotateDeg := r\<rparr>) = canRedo ed"
  "canRedo (ed\<lparr>cropSet := c\<rparr>) = canRedo ed"
  "canRedo (ed\<lparr>isCropping := k\<rparr>) = canRedo ed"
  by (simp_all add: canRedo_def)

lemma sample_eval:
  "validDataUrl imgS" "validDataUrl imgR" "\<not> validDataUrl ''data:,''" "imgS \<noteq> imgR"
  by (simp_all add: validDataUrl_def truthy_def startsWith_def imgS_def imgR_def)

lemma adopted_eval:
  "adopted = app0\<lparr>imageSrc := imgS, originalImage := imgS, editedImage := imgS,
                  enhancedImage := [], isImageLoading := False, activeStep := 1\<rparr>"
  by (simp add: adopted_def handleCameraCapture_def sample_eval)

lemma mount_adopted_eval:
  "mountStep adopted = ((mountEditor imgS)\<lparr>history := [imgS], historyIndex := 0\<rparr>, adopted)"
  by (simp add: mountStep_def reinitEffect_def adopted_eval sample_eval mountEditor_def)

text \<open>
  C1. The history update of \<open>applyRotation\<close> and \<open>applyCrop\<close> keeps the entries at
  indices 0 up to the cursor, drops the rest, appends the new image as the last entry and
  moves the cursor to that last index. After the update nothing can be redone; this also
  holds for a commit that follows an undo, in the editor alone and in the editor mounted
  in the wizard (where the reinitialisation effect may run after either handler).
\<close>

theorem commit_truncates_appends:
  "history (commit n ed) = take (historyIndex ed + 1) (history ed) @ [n]
   \<and> historyIndex (commit n ed) = length (history (commit n ed)) - 1
   \<and> (\<forall>i \<le> historyIndex ed. i < length (history ed) \<longrightarrow>
         history (commit n ed) ! i = history ed ! i)
   \<and> last (history (commit n ed)) = n
   \<and> \<not> canRedo (commit n (fst (undo ed)))
   \<and> \<not> canRedo (fst (applyRotationStep n (undoStep s)))
   \<and> \<not> canRedo (fst (applyCropStep n (undoStep s)))"
proof -
  have kept: "\<forall>i \<le> historyIndex ed. i < length (history ed) \<longrightarrow>
                history (commit n ed) ! i = history ed ! i"
    by (simp add: commit_history nth_append)
  have rot: "\<not> canRedo (fst (applyRotationStep n t))" for t :: "editor \<times> 'a app"
    by (cases t)
      (simp add: applyRotationStep_def afterRender_no_redo canRedo_update commit_no_redo)
  have crp: "\<not> canRedo (fst (applyCropStep n t))" for t :: "editor \<times> 'a app"
    by (cases t)
      (simp add: applyCropStep_def afterRender_no_redo canRedo_update commit_no_redo)
  show ?thesis
    using kept rot crp by (simp add: commit_history commit_index commit_no_redo)
qed

theorem commit_truncates_appends_witness:
  "fst (undo edABC) = edABC\<lparr>historyIndex := 1\<rparr>
   \<and> history (commit ''D'' (fst (undo edABC))) = [''A'', ''B'', ''D'']
   \<and> historyIndex (commit ''D'' (fst (undo edABC))) = 2
   \<and> (1::nat) \<le> historyIndex (fst (undo edABC))
   \<and> (1::nat) < length (history (fst (undo edABC)))
   \<and> history (commit ''D'' (fst (undo edABC))) ! 1 = ''B''
   \<and> \<not> canRedo (commit ''D'' (fst (undo edABC)))"
proof -
  have u: "fst (undo edABC) = edABC\<lparr>historyIndex := 1\<rparr>"
    by (simp add: undo_def edABC_def Let_def)
  from commit_truncates_appends [of "''D''" "fst (undo edABC)" "(edABC, adopted)"]
  show ?thesis
    unfolding u by (simp add: edABC_def commit_no_redo)
qed

text \<open>
  C2 (the code departs from it). In the mounted editor a commit of a valid image other
  than the parent's current one changes the parent's \<open>imageSrc\<close>, so the
  reinitialisation effect runs after the handler and replaces the history by the single
  new image: entry 0 is no longer the seed. Evaluated on the seed \<open>imgS\<close> and the rotated
  image \<open>imgR\<close>.
\<close>

theorem commit_replaces_seed:
  "history (fst (mountStep adopted)) = [imgS]
   \<and> history (fst (run [Rotate imgR] (mountStep adopted))) = [imgR]
   \<and> historyIndex (fst (run [Rotate imgR] (mountStep adopted))) = 0
   \<and> imgR \<noteq> imgS"
  unfolding mount_adopted_eval
  by (simp add: applyRotationStep_def afterRender_def handleImageEdit_def reinitEffect_def
      adopted_eval sample_eval sample_eval(4) [symmetric])

text \<open>The same for any editor state: whenever the committed image is valid and differs
  from the parent's current image, only the committed image is left in the history.\<close>

lemma commit_resets_history:
  assumes "validDataUrl n" and "n \<noteq> imageSrc a"
  shows "history (fst (applyRotationStep n (ed, a))) = [n]
       \<and> historyIndex (fst (applyRotationStep n (ed, a))) = 0
       \<and> history (fst (applyCropStep n (ed, a))) = [n]
       \<and> historyIndex (fst (applyCropStep n (ed, a))) = 0"
  using assms
  by (simp add: applyRotationStep_def applyCropStep_def afterRender_def handleImageEdit_def
      reinitEffect_def)

text \<open>The other half of C2 does hold: the history never becomes empty.\<close>

lemma history_nonempty_step: "history (fst s) \<noteq> [] \<Longrightarrow> history (fst (step x s)) \<noteq> []"
  by (cases s; cases x)
    (auto simp: applyRotationStep_def applyCropStep_def undoStep_def redoStep_def
      afterRender_def reinitEffect_def commit_history undo_def redo_def Let_def)

lemma history_nonempty_run: "history (fst s) \<noteq> [] \<Longrightarrow> history (fst (run xs s)) \<noteq> []"
  by (induction xs arbitrary: s) (simp_all add: history_nonempty_step)

lemma history_nonempty_mount: "history (fst (run xs (mountStep a))) \<noteq> []"
  by (rule history_nonempty_run) (simp add: mountStep_def reinitEffect_def mountEditor_def)

text \<open>
  C3. In an editor whose index is inside its history and greater than 0, \<open>undo\<close>
  followed by \<open>redo\<close> leaves the history and the index as they were, displays the entry
  that was displayed before, and \<open>redo\<close> reports exactly that entry to the parent.
\<close>

theorem undo_then_redo_restores:
  assumes "historyIndex ed < length (history ed)" and "canUndo ed"
  shows "history (fst (redo (fst (undo ed)))) = history ed
     \<and> historyIndex (fst (redo (fst (undo ed)))) = historyIndex ed
     \<and> currentEntry (fst (redo (fst (undo ed)))) = currentEntry ed
     \<and> snd (redo (fst (undo ed))) = Some (currentEntry ed)"
  using assms by (simp add: undo_def redo_def canUndo_def currentEntry_def Let_def)

lemma edEmptyCrop_eval:
  "edEmptyCrop = (mountEditor imgS)\<lparr>history := [imgS, ''data:,''], historyIndex := 1\<rparr>"
  by (simp add: edEmptyCrop_def mount_adopted_eval applyCropStep_def afterRender_def
      handleImageEdit_def sample_eval commit_def slice_def mountEditor_def)

theorem undo_then_redo_restores_witness:
  "historyIndex edEmptyCrop < length (history edEmptyCrop)
   \<and> canUndo edEmptyCrop
   \<and> currentEntry edEmptyCrop = Some ''data:,''
   \<and> currentEntry (fst (undo edEmptyCrop)) = Some imgS
   \<and> currentEntry (fst (redo (fst (undo edEmptyCrop)))) = Some ''data:,''
   \<and> historyIndex (fst (redo (fst (undo edEmptyCrop)))) = 1"
proof -
  have h1: "historyIndex edEmptyCrop < length (history edEmptyCrop)"
    by (simp add: edEmptyCrop_eval)
  have h2: "canUndo edEmptyCrop"
    by (simp add: edEmptyCrop_eval canUndo_def)
  have c: "currentEntry edEmptyCrop = Some ''data:,''"
    by (simp add: edEmptyCrop_eval currentEntry_def at_index_def)
  have u: "currentEntry (fst (undo edEmptyCrop)) = Some imgS"
    by (simp add: edEmptyCrop_eval undo_def Let_def currentEntry_def at_index_def)
  from undo_then_redo_restores [OF h1 h2] h1 h2 c u show ?thesis
    by (simp add: edEmptyCrop_eval)
qed

text \<open>
  The same in the wizard. The invariant \<open>synced\<close> holds when the editor is mounted and
  after every action, so neither \<open>undo\<close> nor \<open>redo\<close> changes the parent's image and the
  effect does not run between them.
\<close>

lemma synced_mount: "synced (mountStep a)"
  by (simp add: synced_def mountStep_def reinitEffect_def mountEditor_def)

lemma synced_afterRender:
  assumes "historyIndex ed < length (history ed)"
    and "imageSrc a = p \<Longrightarrow> \<forall>e \<in> set (history ed). e = imageSrc a \<or> \<not> validDataUrl e"
    and "\<not> validDataUrl (imageSrc a) \<Longrightarrow>
           \<forall>e \<in> set (history ed). e = imageSrc a \<or> \<not> validDataUrl e"
  shows "synced (afterRender p (ed, a))"
  using assms by (auto simp: synced_def afterRender_def reinitEffect_def)

lemma synced_commit:
  assumes "synced (ed, a)"
    and h: "history ed' = history (commit n ed)"
    and i: "historyIndex ed' = historyIndex (commit n ed)"
  shows "synced (afterRender (imageSrc a) (ed', handleImageEdit (Some n) a))"
proof (rule synced_afterRender)
  show "historyIndex ed' < length (history ed')"
    by (simp add: h i commit_index commit_history)
next
  assume "imageSrc (handleImageEdit (Some n) a) = imageSrc a"
  with assms(1)
  show "\<forall>e\<in>set (history ed'). e = imageSrc (handleImageEdit (Some n) a) \<or> \<not> validDataUrl e"
    by (auto simp: h synced_def commit_history handleImageEdit_def
        dest: in_set_takeD split: if_splits)
next
  assume "\<not> validDataUrl (imageSrc (handleImageEdit (Some n) a))"
  with assms(1)
  show "\<forall>e\<in>set (history ed'). e = imageSrc (handleImageEdit (Some n) a) \<or> \<not> validDataUrl e"
    by (auto simp: h synced_def commit_history handleImageEdit_def
        dest: in_set_takeD split: if_splits)
qed

lemma undoStep_synced:
  assumes "synced (ed, a)"
  shows "fst (undoStep (ed, a)) = fst (undo ed)
       \<and> imageSrc (snd (undoStep (ed, a))) = imageSrc a"
  using assms
  by (auto simp: synced_def undoStep_def undo_def afterRender_def notifyParent_def
      handleImageEdit_def at_index_def Let_def split: option.splits)

lemma redoStep_synced:
  assumes "synced (ed, a)"
  shows "fst (redoStep (ed, a)) = fst (redo ed)
       \<and> imageSrc (snd (redoStep (ed, a))) = imageSrc a"
  using assms
  by (auto simp: synced_def redoStep_def redo_def afterRender_def notifyParent_def
      handleImageEdit_def at_index_def Let_def split: option.splits)

lemma synced_undo: "synced s \<Longrightarrow> synced (undoStep s)"
  by (cases s)
    (auto simp: synced_def undoStep_def undo_def afterRender_def notifyParent_def
      handleImageEdit_def at_index_def Let_def reinitEffect_def split: option.splits)

lemma synced_redo: "synced s \<Longrightarrow> synced (redoStep s)"
  by (cases s)
    (auto simp: synced_def redoStep_def redo_def afterRender_def notifyParent_def
      handleImageEdit_def at_index_def Let_def reinitEffect_def split: option.splits)

lemma synced_step: "synced s \<Longrightarrow> synced (step x s)"
proof (cases s)
  case (Pair ed a)
  assume s: "synced s"
  show ?thesis
  proof (cases x)
    case (Rotate d)
    show ?thesis using s Pair Rotate
      by (simp add: applyRotationStep_def synced_commit)
  next
    case (Crop d)
    show ?thesis using s Pair Crop
      by (simp add: applyCropStep_def synced_commit)
  next
    case Undo
    then show ?thesis using s synced_undo by simp
  next
    case Redo
    then show ?thesis using s synced_redo by simp
  qed
qed

lemma synced_run: "synced (run xs (mountStep a))"
proof -
  have "synced s \<Longrightarrow> synced (run xs s)" for s :: "editor \<times> 'a app"
    by (induction xs arbitrary: s) (simp_all add: synced_step)
  then show ?thesis by (simp add: synced_mount)
qed

lemma undo_redo_mounted:
  assumes "synced s" and "canUndo (fst s)"
  shows "history (fst (redoStep (undoStep s))) = history (fst s)
       \<and> historyIndex (fst (redoStep (undoStep s))) = historyIndex (fst s)
       \<and> imageSrc (snd (redoStep (undoStep s))) = imageSrc (snd s)"
proof -
  obtain ed a where s: "s = (ed, a)" by (cases s)
  obtain ed' a' where u: "undoStep s = (ed', a')" by (cases "undoStep s")
  have 1: "ed' = fst (undo ed)" "imageSrc a' = imageSrc a"
    using undoStep_synced [of ed a] assms s u by simp_all
  have "synced (ed', a')" using synced_undo [OF assms(1)] u by simp
  then have 2: "fst (redoStep (ed', a')) = fst (redo ed')"
    "imageSrc (snd (redoStep (ed', a'))) = imageSrc a'"
    using redoStep_synced by blast+
  have "historyIndex ed < length (history ed)" "canUndo ed"
    using assms s by (simp_all add: synced_def)
  then have "history (fst (redo (fst (undo ed)))) = history ed
           \<and> historyIndex (fst (redo (fst (undo ed)))) = historyIndex ed"
    by (simp add: undo_def redo_def canUndo_def Let_def)
  then show ?thesis using 1 2 s u by simp
qed

section \<open>The image slots of the wizard\<close>

lemma sample_slots:
  "validDataUrl imgE1" "validDataUrl imgE2" "truthy imgS" "truthy imgE1"
  "imgE1 \<noteq> imgS" "imgE1 \<noteq> imgE2" "imgS \<noteq> imgE2"
  "''data:image/png;base64,E1'' = imgE1" "''data:image/png;base64,E2'' = imgE2"
  by (simp_all add: validDataUrl_def truthy_def startsWith_def imgS_def imgE1_def imgE2_def)

lemma enhancedOnce_eval:
  "enhancedOnce = adopted\<lparr>enhancedImage := imgE1, enhancing := False\<rparr>"
  by (simp add: enhancedOnce_def handleEnhanceImage_def adopted_eval sample_slots fetchOk_def
      enhanceImage_def apiPost_def enhanceBackend_def readPng_def)

lemma usingEnhanced_eval:
  "usingEnhanced = adopted\<lparr>imageSrc := imgE1, enhancedImage := imgE1, enhancing := False\<rparr>"
  by (simp add: usingEnhanced_def enhancedOnce_eval handleSelectImage_def sample_slots)

lemma enhancedTwice_eval:
  "enhancedTwice = adopted\<lparr>imageSrc := imgE1, enhancedImage := imgE2, enhancing := False\<rparr>"
  by (simp add: enhancedTwice_def usingEnhanced_eval handleEnhanceImage_def sample_slots
      fetchOk_def enhanceImage_def apiPost_def enhanceBackend_def readPng_def)

lemma previewType_unknown: "(previewType a = ''unknown'') = (\<not> classified a)"
  by (simp add: previewType_def getCurrentImageType_def classified_def)

lemma classified_select: "classified a \<Longrightarrow> classified (fst (handleSelectImage t a))"
  by (cases t) (auto simp: classified_def handleSelectImage_def Let_def truthy_def)

lemma classified_adopt:
  "classified a \<Longrightarrow> classified (fst (handleImageSelect rdf f a))"
  "classified a \<Longrightarrow> classified (fst (handleCameraCapture c a))"
  by (auto simp: classified_def handleImageSelect_def handleCameraCapture_def
      split: readerOutcome.splits)

lemma classified_edit: "classified a \<Longrightarrow> classified (handleImageEdit e a)"
  by (auto simp: classified_def handleImageEdit_def split: option.splits)

lemma classified_reset:
  "classified a \<Longrightarrow> classified (fst (handleResetToOriginal a))"
  "classified (fst (handleReset a))"
  by (auto simp: classified_def handleResetToOriginal_def handleReset_def)

lemma classified_ocr: "classified a \<Longrightarrow> classified (fst (fst (handleProcessOCR fb be b a)))"
  by (auto simp: classified_def handleProcessOCR_def Let_def split: sum.splits prod.splits)

lemma classified_enhance:
  "imageSrc a = originalImage a \<or> imageSrc a = editedImage a \<Longrightarrow>
   classified (fst (fst (handleEnhanceImage fb be rd b a)))"
  by (auto simp: classified_def handleEnhanceImage_def
      split: sum.splits prod.splits readerOutcome.splits)

text \<open>
  C4 as stated fails twice. Right after an image is adopted the current image equals
  two slots, the original and the edited one, not exactly one. And after the user has
  selected the enhanced image, a second successful enhance replaces the enhanced slot
  while the current image stays the old one: the three slots then hold \<open>imgS\<close>, \<open>imgS\<close>
  and \<open>imgE2\<close>, the current image is \<open>imgE1\<close>, and \<open>getCurrentImageType\<close> answers
  \<open>unknown\<close>.
\<close>

theorem second_enhance_unclassified:
  "imageSrc adopted = originalImage adopted \<and> imageSrc adopted = editedImage adopted
   \<and> imageSrc enhancedTwice = imgE1 \<and> originalImage enhancedTwice = imgS
   \<and> editedImage enhancedTwice = imgS \<and> enhancedImage enhancedTwice = imgE2
   \<and> imgE1 \<noteq> imgS \<and> imgE1 \<noteq> imgE2 \<and> imgS \<noteq> imgE2
   \<and> previewType enhancedTwice = ''unknown''"
  by (simp add: enhancedTwice_eval adopted_eval previewType_def getCurrentImageType_def
      sample_slots)

text \<open>
  C4, amended. If the current image equals at least one of the original, edited and
  enhanced slots, then \<open>getCurrentImageType\<close> does not answer \<open>unknown\<close>, and the same
  holds again after adopting a file or a camera image, after \<open>handleImageEdit\<close>,
  \<open>handleSelectImage\<close>, \<open>handleResetToOriginal\<close>, \<open>handleReset\<close> and
  \<open>handleProcessOCR\<close>; after \<open>handleEnhanceImage\<close> it holds again provided the current
  image equals the original or the edited slot.
\<close>

theorem classified_preserved:
  assumes "classified a"
  shows "previewType a \<noteq> ''unknown''
    \<and> classified (fst (handleImageSelect rdf f a))
    \<and> classified (fst (handleCameraCapture c a))
    \<and> classified (handleImageEdit e a)
    \<and> classified (fst (handleSelectImage t a))
    \<and> classified (fst (handleResetToOriginal a))
    \<and> classified (fst (handleReset a))
    \<and> classified (fst (fst (handleProcessOCR fb be b a)))
    \<and> (imageSrc a = originalImage a \<or> imageSrc a = editedImage a \<longrightarrow>
          classified (fst (fst (handleEnhanceImage fb be' rd b a))))"
  using assms
  by (simp add: previewType_unknown classified_select classified_adopt classified_edit
      classified_reset classified_ocr classified_enhance)

theorem classified_preserved_witness:
  "classified adopted \<and> previewType adopted = ''original''
   \<and> (imageSrc adopted = originalImage adopted \<or> imageSrc adopted = editedImage adopted)
   \<and> classified enhancedOnce \<and> previewType enhancedOnce = ''original''
   \<and> classified usingEnhanced \<and> previewType usingEnhanced = ''enhanced''"
proof -
  have c: "classified adopted" by (simp add: classified_def adopted_eval)
  have o: "imageSrc adopted = originalImage adopted \<or> imageSrc adopted = editedImage adopted"
    by (simp add: adopted_eval)
  have "classified
          (fst (fst (handleEnhanceImage fetchOk (enhanceBackend ''E1'') readPng browser0
                       adopted)))"
    using classified_preserved [OF c, where fb = fetchOk and b = browser0
        and be' = "enhanceBackend ''E1''" and rd = readPng] o by blast
  then have e: "classified enhancedOnce" by (simp add: enhancedOnce_def)
  have "classified (fst (handleSelectImage Enhanced enhancedOnce))"
    using classified_preserved [OF e, where t = Enhanced] by blast
  then have u: "classified usingEnhanced" by (simp add: usingEnhanced_def)
  show ?thesis using c o e u
    by (simp add: previewType_def getCurrentImageType_def adopted_eval enhancedOnce_eval
        usingEnhanced_eval sample_slots)
qed

text \<open>
  C5 as stated fails: with the enhanced slot holding \<open>imgE1\<close>, the edit \<open>imgR\<close> reported
  by the editor leaves the enhanced slot holding \<open>imgE1\<close>.
\<close>

theorem enhanced_survives_edit:
  "enhancedImage enhancedOnce = imgE1 \<and> validDataUrl imgR
   \<and> enhancedImage (handleImageEdit (Some imgR) enhancedOnce) = imgE1 \<and> imgE1 \<noteq> []"
  by (simp add: enhancedOnce_eval handleImageEdit_def sample_eval imgE1_def)

text \<open>
  C5, amended. \<open>handleImageEdit\<close> with a valid DataURL sets the edited and the current
  image to it; with an invalid or missing one it changes nothing; in every case it
  leaves the enhanced and the original slot as they were.
\<close>

theorem handleImageEdit_slots:
  "(validDataUrl e \<longrightarrow>
      imageSrc (handleImageEdit (Some e) a) = e \<and> editedImage (handleImageEdit (Some e) a) = e)
   \<and> (\<not> validDataUrl e \<longrightarrow> handleImageEdit (Some e) a = a)
   \<and> handleImageEdit None a = a
   \<and> enhancedImage (handleImageEdit x a) = enhancedImage a
   \<and> originalImage (handleImageEdit x a) = originalImage a"
  by (simp add: handleImageEdit_def split: option.splits)

theorem handleImageEdit_slots_witness:
  "validDataUrl imgR \<and> \<not> validDataUrl ''data:,''
   \<and> handleImageEdit (Some imgR) enhancedOnce =
       adopted\<lparr>imageSrc := imgR, editedImage := imgR, enhancedImage := imgE1,
               enhancing := False\<rparr>
   \<and> handleImageEdit (Some ''data:,'') enhancedOnce = enhancedOnce"
proof -
  note t = handleImageEdit_slots [of imgR enhancedOnce "Some imgR"]
    handleImageEdit_slots [of "''data:,''" enhancedOnce "Some ''data:,''"]
  have "handleImageEdit (Some imgR) enhancedOnce =
          enhancedOnce\<lparr>imageSrc := imgR, editedImage := imgR\<rparr>"
    by (simp add: handleImageEdit_def sample_eval)
  then show ?thesis using t by (simp add: sample_eval enhancedOnce_eval)
qed

text \<open>
  C6 as stated fails: with no enhanced image, selecting the enhanced version returns
  the state unchanged and shows nothing, no error either.
\<close>

theorem select_absent_enhanced_silent:
  "enhancedImage adopted = [] \<and> handleSelectImage Enhanced adopted = (adopted, [])"
  by (simp add: adopted_eval handleSelectImage_def truthy_def)

text \<open>
  C6, amended. When the enhanced slot is empty, \<open>handleSelectImage('enhanced')\<close>
  leaves the whole state unchanged and notifies nobody; when it is present, the
  current image becomes the enhanced one and an info toast is shown.
\<close>

theorem select_enhanced_cases:
  "(\<not> truthy (enhancedImage a) \<longrightarrow> handleSelectImage Enhanced a = (a, []))
   \<and> (truthy (enhancedImage a) \<longrightarrow>
        handleSelectImage Enhanced a =
          (a\<lparr>imageSrc := enhancedImage a\<rparr>, [Toast Info ''Usando imagen mejorada por IA'']))"
  by (simp add: handleSelectImage_def truthy_def)

theorem select_enhanced_cases_witness:
  "\<not> truthy (enhancedImage adopted) \<and> handleSelectImage Enhanced adopted = (adopted, [])
   \<and> truthy (enhancedImage enhancedOnce)
   \<and> imageSrc (fst (handleSelectImage Enhanced enhancedOnce)) = imgE1"
proof -
  have a: "\<not> truthy (enhancedImage adopted)" by (simp add: adopted_eval truthy_def)
  have b: "truthy (enhancedImage enhancedOnce)" by (simp add: enhancedOnce_eval sample_slots)
  from select_enhanced_cases [of adopted] select_enhanced_cases [of enhancedOnce] a b
  show ?thesis by (simp add: enhancedOnce_eval)
qed

section \<open>Processing the current image\<close>

lemma ocrErrorToast_error: "\<exists>msg. ocrErrorToast e = Toast Error msg"
  by (simp add: ocrErrorToast_def)

lemma interceptor_timeout:
  "code e = Some ''ECONNABORTED'' \<or> includesStr (message e) ''timeout'' \<Longrightarrow>
   ocrErrorToast (fst (responseInterceptor e b)) = Toast Error timeoutMessage"
  by (simp add: responseInterceptor_def ocrErrorToast_def)

lemma interceptor_other:
  "\<not> (code e = Some ''ECONNABORTED'' \<or> includesStr (message e) ''timeout'') \<Longrightarrow>
   responseStatus e \<noteq> Some 401 \<Longrightarrow> responseInterceptor e b = (e, b)"
  by (simp add: responseInterceptor_def)

text \<open>A 401 answer that is not a timeout becomes an \<open>AuthError\<close>, clears the tokens and
  sends the browser to the login page.\<close>

lemma interceptor_401:
  assumes "\<not> (code e = Some ''ECONNABORTED'' \<or> includesStr (message e) ''timeout'')"
    and "responseStatus e = Some 401"
  shows "ocrErrorToast (fst (responseInterceptor e b)) =
           Toast Error ''Error en OCR: Tu sesion ha expirado. Por favor, inicia sesion nuevamente.''
       \<and> pathname (snd (responseInterceptor e b)) = ''/login''
       \<and> localStorage (snd (responseInterceptor e b)) =
           (localStorage b)(''jwt_token'' := None, ''laravel_token'' := None,
                            ''user_data'' := None)"
  using assms by (simp add: responseInterceptor_def ocrErrorToast_def truthy_def)

lemma prefix_not_timeout: "''Error en OCR: '' @ m \<noteq> timeoutMessage"
  by (simp add: timeoutMessage_def)

lemma sample_errors:
  "\<not> (code axios401 = Some ''ECONNABORTED'' \<or> includesStr (message axios401) ''timeout'')"
  "responseStatus axios401 = Some 401"
  "\<not> (code axios500 = Some ''ECONNABORTED'' \<or> includesStr (message axios500) ''timeout'')"
  "responseStatus axios500 \<noteq> Some 401"
  "name axios500 \<noteq> ''TimeoutError''" "message axios500 \<noteq> []"
  by (simp_all add: axios401_def axios500_def startsWith_def)

lemma endpoint_request:
  "(if isReverso a then processReverso else processAnverso) backend
      \<lparr>fileName = ''ine.jpg'', fileType = ''image/jpeg'', fileBytes = blob\<rparr> b =
   (case backend (ocrRequest (isReverso a) blob b) of
      Inr response \<Rightarrow> (Inr response, b)
    | Inl error \<Rightarrow>
        (Inl (fst (responseInterceptor error b)), snd (responseInterceptor error b)))"
  by (simp add: processReverso_def processAnverso_def apiPost_def ocrRequest_def
      split: sum.splits prod.splits)

lemma ocr_success:
  assumes "truthy (imageSrc a)" and "fetchBlob (imageSrc a) = Inr blob"
    and "backend (ocrRequest (isReverso a) blob b) = Inr d"
  shows "handleProcessOCR fetchBlob backend b a =
          ((a\<lparr>ocrData := Some d, activeStep := 3, loading := False\<rparr>,
            [Toast Success ''OCR procesado correctamente'']), b)"
  using assms unfolding handleProcessOCR_def Let_def endpoint_request by simp

lemma ocr_fetch_failure:
  assumes "truthy (imageSrc a)" and "fetchBlob (imageSrc a) = Inl e"
  shows "handleProcessOCR fetchBlob backend b a =
          ((a\<lparr>loading := False\<rparr>, [ocrErrorToast e]), b)"
  using assms unfolding handleProcessOCR_def by simp

lemma ocr_call_failure:
  assumes "truthy (imageSrc a)" and "fetchBlob (imageSrc a) = Inr blob"
    and "backend (ocrRequest (isReverso a) blob b) = Inl e"
  shows "handleProcessOCR fetchBlob backend b a =
          ((a\<lparr>loading := False\<rparr>, [ocrErrorToast (fst (responseInterceptor e b))]),
           snd (responseInterceptor e b))"
  using assms unfolding handleProcessOCR_def Let_def endpoint_request by simp

lemma atPreview_eval: "atPreview = adopted\<lparr>activeStep := 2\<rparr>"
  by (simp add: atPreview_def handleNext_def adopted_eval sample_eval)

text \<open>
  C7 as stated fails for one kind of failure. When the backend answers 401 the response
  interceptor removes the stored tokens and assigns \<open>/login\<close> to the location: the call
  has failed, and the browser leaves the wizard instead of staying at the preview step.
  Evaluated at step 2 on \<open>imgS\<close> with a logged-in store on the path \<open>/\<close>.
\<close>

theorem unauthorized_leaves_wizard:
  "activeStep atPreview = 2 \<and> pathname loggedIn = ''/''
   \<and> localStorage loggedIn ''jwt_token'' = Some ''abc''
   \<and> fetchOk (imageSrc atPreview) = Inr imgS
   \<and> ocrBackend401 (ocrRequest (isReverso atPreview) imgS loggedIn) = Inl axios401
   \<and> responseStatus axios401 = Some 401
   \<and> pathname (snd (handleProcessOCR fetchOk ocrBackend401 loggedIn atPreview)) = ''/login''
   \<and> localStorage (snd (handleProcessOCR fetchOk ocrBackend401 loggedIn atPreview)) ''jwt_token'' = None"
proof -
  have t: "truthy (imageSrc atPreview)"
    by (simp add: atPreview_eval adopted_eval sample_slots)
  have f: "fetchOk (imageSrc atPreview) = Inr imgS"
    by (simp add: fetchOk_def atPreview_eval adopted_eval)
  have k: "ocrBackend401 (ocrRequest (isReverso atPreview) imgS loggedIn) = Inl axios401"
    by (simp add: ocrBackend401_def)
  have "snd (handleProcessOCR fetchOk ocrBackend401 loggedIn atPreview) = snd (responseInterceptor axios401 loggedIn)"
    using ocr_call_failure [where fetchBlob = fetchOk and backend = ocrBackend401
        and b = loggedIn and a = atPreview and blob = imgS and e = axios401] t f k by simp
  then show ?thesis using interceptor_401 [OF sample_errors(1,2), of loggedIn] f k
    by (simp add: atPreview_eval adopted_eval app0_def loggedIn_def sample_errors)
qed

text \<open>
  C7, amended. With a current image, \<open>handleProcessOCR\<close> posts the blob of that image
  as \<open>ine.jpg\<close> to \<open>/ocrreverso\<close> when \<open>isReverso\<close> is set and to \<open>/ocr\<close> otherwise. If
  the backend answers, the answer is stored in \<open>ocrData\<close>, the step becomes 3, a success
  toast is shown and the browser is untouched. If \<open>fetch\<close> or the backend fails, the
  step, \<open>ocrData\<close> and the current image of \<open>App\<close> are as before and exactly one error
  toast is shown. Its text tells the kinds apart: for a timeout of the backend call (code
  \<open>ECONNABORTED\<close> or a message containing \<open>timeout\<close>) it is the timeout message; for
  a 401 it is \<open>Error en OCR:\<close> followed by the session-expired message; for any other
  failure it is the message of the error itself if the error is named \<open>TimeoutError\<close>,
  and otherwise \<open>Error en OCR:\<close> followed by that message or, when it is empty, by
  \<open>Error desconocido\<close>. No text with the prefix \<open>Error en OCR:\<close> equals the timeout
  message. The browser is untouched by every failure but the 401, after which the three
  stored items \<open>jwt_token\<close>, \<open>laravel_token\<close> and \<open>user_data\<close> are gone and the
  location is \<open>/login\<close>.
\<close>

theorem process_ocr_cases:
  assumes "truthy (imageSrc a)"
  shows
   "url (ocrRequest (isReverso a) blob b) = (if isReverso a then ''/ocrreverso'' else ''/ocr'')
    \<and> imagen (ocrRequest (isReverso a) blob b) =
        \<lparr>fileName = ''ine.jpg'', fileType = ''image/jpeg'', fileBytes = blob\<rparr>
    \<and> (fetchBlob (imageSrc a) = Inr blob \<and> backend (ocrRequest (isReverso a) blob b) = Inr d \<longrightarrow>
       handleProcessOCR fetchBlob backend b a =
         ((a\<lparr>ocrData := Some d, activeStep := 3, loading := False\<rparr>,
           [Toast Success ''OCR procesado correctamente'']), b))
    \<and> (fetchBlob (imageSrc a) = Inl e
         \<or> (fetchBlob (imageSrc a) = Inr blob
             \<and> backend (ocrRequest (isReverso a) blob b) = Inl e) \<longrightarrow>
       activeStep (fst (fst (handleProcessOCR fetchBlob backend b a))) = activeStep a
       \<and> ocrData (fst (fst (handleProcessOCR fetchBlob backend b a))) = ocrData a
       \<and> imageSrc (fst (fst (handleProcessOCR fetchBlob backend b a))) = imageSrc a
       \<and> (\<exists>msg. snd (fst (handleProcessOCR fetchBlob backend b a)) = [Toast Error msg]))
    \<and> (fetchBlob (imageSrc a) = Inl e \<longrightarrow>
       handleProcessOCR fetchBlob backend b a =
         ((a\<lparr>loading := False\<rparr>,
           [Toast Error
              (if name e = ''TimeoutError'' then message e
               else ''Error en OCR: '' @
                    (if message e \<noteq> [] then message e else ''Error desconocido''))]), b))
    \<and> (fetchBlob (imageSrc a) = Inr blob \<and> backend (ocrRequest (isReverso a) blob b) = Inl e
         \<and> (code e = Some ''ECONNABORTED'' \<or> includesStr (message e) ''timeout'') \<longrightarrow>
       handleProcessOCR fetchBlob backend b a =
         ((a\<lparr>loading := False\<rparr>, [Toast Error timeoutMessage]), b))
    \<and> (fetchBlob (imageSrc a) = Inr blob \<and> backend (ocrRequest (isReverso a) blob b) = Inl e
         \<and> \<not> (code e = Some ''ECONNABORTED'' \<or> includesStr (message e) ''timeout'')
         \<and> responseStatus e = Some 401 \<longrightarrow>
       fst (handleProcessOCR fetchBlob backend b a) =
         (a\<lparr>loading := False\<rparr>,
          [Toast Error
             ''Error en OCR: Tu sesion ha expirado. Por favor, inicia sesion nuevamente.''])
       \<and> pathname (snd (handleProcessOCR fetchBlob backend b a)) = ''/login''
       \<and> localStorage (snd (handleProcessOCR fetchBlob backend b a)) =
           (localStorage b)(''jwt_token'' := None, ''laravel_token'' := None,
                            ''user_data'' := None))
    \<and> (fetchBlob (imageSrc a) = Inr blob \<and> backend (ocrRequest (isReverso a) blob b) = Inl e
         \<and> \<not> (code e = Some ''ECONNABORTED'' \<or> includesStr (message e) ''timeout'')
         \<and> responseStatus e \<noteq> Some 401 \<longrightarrow>
       handleProcessOCR fetchBlob backend b a =
         ((a\<lparr>loading := False\<rparr>,
           [Toast Error
              (if name e = ''TimeoutError'' then message e
               else ''Error en OCR: '' @
                    (if message e \<noteq> [] then message e else ''Error desconocido''))]), b))
    \<and> ''Error en OCR: '' @ m \<noteq> timeoutMessage"
proof -
  let ?R = "handleProcessOCR fetchBlob backend b a"
  let ?req = "ocrRequest (isReverso a) blob b"
  have route: "url ?req = (if isReverso a then ''/ocrreverso'' else ''/ocr'')
      \<and> imagen ?req = \<lparr>fileName = ''ine.jpg'', fileType = ''image/jpeg'', fileBytes = blob\<rparr>"
    by (simp add: ocrRequest_def requestInterceptor_def split: option.splits)
  have ok: "fetchBlob (imageSrc a) = Inr blob \<and> backend ?req = Inr d \<longrightarrow>
       ?R = ((a\<lparr>ocrData := Some d, activeStep := 3, loading := False\<rparr>,
           [Toast Success ''OCR procesado correctamente'']), b)"
    using ocr_success [OF assms] by simp
  have any: "fetchBlob (imageSrc a) = Inl e
         \<or> (fetchBlob (imageSrc a) = Inr blob \<and> backend ?req = Inl e) \<longrightarrow>
       activeStep (fst (fst ?R)) = activeStep a \<and> ocrData (fst (fst ?R)) = ocrData a
       \<and> imageSrc (fst (fst ?R)) = imageSrc a
       \<and> (\<exists>msg. snd (fst ?R) = [Toast Error msg])"
  proof
    assume "fetchBlob (imageSrc a) = Inl e
         \<or> (fetchBlob (imageSrc a) = Inr blob \<and> backend ?req = Inl e)"
    then have r: "fst ?R = (a\<lparr>loading := False\<rparr>, [ocrErrorToast e])
      \<or> fst ?R = (a\<lparr>loading := False\<rparr>, [ocrErrorToast (fst (responseInterceptor e b))])"
      using ocr_fetch_failure [OF assms] ocr_call_failure [OF assms] by auto
    then show "activeStep (fst (fst ?R)) = activeStep a \<and> ocrData (fst (fst ?R)) = ocrData a
       \<and> imageSrc (fst (fst ?R)) = imageSrc a
       \<and> (\<exists>msg. snd (fst ?R) = [Toast Error msg])"
      using ocrErrorToast_error by auto
  qed
  have fe: "fetchBlob (imageSrc a) = Inl e \<longrightarrow>
       ?R = ((a\<lparr>loading := False\<rparr>,
           [Toast Error
              (if name e = ''TimeoutError'' then message e
               else ''Error en OCR: '' @
                    (if message e \<noteq> [] then message e else ''Error desconocido''))]), b)"
    using ocr_fetch_failure [OF assms] by (simp add: ocrErrorToast_def truthy_def)
  have tm: "fetchBlob (imageSrc a) = Inr blob \<and> backend ?req = Inl e
         \<and> (code e = Some ''ECONNABORTED'' \<or> includesStr (message e) ''timeout'') \<longrightarrow>
       ?R = ((a\<lparr>loading := False\<rparr>, [Toast Error timeoutMessage]), b)"
    using ocr_call_failure [OF assms, of fetchBlob blob backend b e]
    by (auto simp: responseInterceptor_def ocrErrorToast_def)
  have un: "fetchBlob (imageSrc a) = Inr blob \<and> backend ?req = Inl e
         \<and> \<not> (code e = Some ''ECONNABORTED'' \<or> includesStr (message e) ''timeout'')
         \<and> responseStatus e = Some 401 \<longrightarrow>
       fst ?R =
         (a\<lparr>loading := False\<rparr>,
          [Toast Error
             ''Error en OCR: Tu sesion ha expirado. Por favor, inicia sesion nuevamente.''])
       \<and> pathname (snd ?R) = ''/login''
       \<and> localStorage (snd ?R) =
           (localStorage b)(''jwt_token'' := None, ''laravel_token'' := None,
                            ''user_data'' := None)"
    using ocr_call_failure [OF assms] interceptor_401 [of e b] by simp
  have ot: "fetchBlob (imageSrc a) = Inr blob \<and> backend ?req = Inl e
         \<and> \<not> (code e = Some ''ECONNABORTED'' \<or> includesStr (message e) ''timeout'')
         \<and> responseStatus e \<noteq> Some 401 \<longrightarrow>
       ?R = ((a\<lparr>loading := False\<rparr>,
           [Toast Error
              (if name e = ''TimeoutError'' then message e
               else ''Error en OCR: '' @
                    (if message e \<noteq> [] then message e else ''Error desconocido''))]), b)"
    using ocr_call_failure [OF assms] interceptor_other [of e b]
    by (simp add: ocrErrorToast_def truthy_def)
  from route ok any fe tm un ot prefix_not_timeout show ?thesis by blast
qed

theorem process_ocr_cases_witness:
  "truthy (imageSrc atPreview) \<and> activeStep atPreview = 2 \<and> \<not> isReverso atPreview
   \<and> fetchOk (imageSrc atPreview) = Inr imgS
   \<and> url (ocrRequest (isReverso atPreview) imgS browser0) = ''/ocr''
   \<and> handleProcessOCR fetchOk ocrBackendOk browser0 atPreview =
        ((atPreview\<lparr>ocrData := Some (), activeStep := 3, loading := False\<rparr>,
          [Toast Success ''OCR procesado correctamente'']), browser0)
   \<and> handleProcessOCR fetchOk ocrBackendTimeout browser0 atPreview =
        ((atPreview\<lparr>loading := False\<rparr>, [Toast Error timeoutMessage]), browser0)
   \<and> fst (handleProcessOCR fetchOk ocrBackend401 loggedIn atPreview) =
        (atPreview\<lparr>loading := False\<rparr>,
         [Toast Error
            ''Error en OCR: Tu sesion ha expirado. Por favor, inicia sesion nuevamente.''])
   \<and> pathname (snd (handleProcessOCR fetchOk ocrBackend401 loggedIn atPreview)) = ''/login''
   \<and> handleProcessOCR fetchOk ocrBackend500 browser0 atPreview =
        ((atPreview\<lparr>loading := False\<rparr>,
          [Toast Error ''Error en OCR: Request failed with status code 500'']), browser0)
   \<and> handleProcessOCR fetchFail ocrBackendOk browser0 atPreview =
        ((atPreview\<lparr>loading := False\<rparr>, [Toast Error ''Error en OCR: Failed to fetch'']),
         browser0)
   \<and> activeStep (fst (fst (handleProcessOCR fetchOk ocrBackend500 browser0 atPreview))) = 2
   \<and> ocrData (fst (fst (handleProcessOCR fetchOk ocrBackend500 browser0 atPreview))) = None"
proof -
  have t: "truthy (imageSrc atPreview)"
    by (simp add: atPreview_eval adopted_eval sample_slots)
  have f: "fetchOk (imageSrc atPreview) = Inr imgS"
    by (simp add: fetchOk_def atPreview_eval adopted_eval)
  have ff: "fetchFail (imageSrc atPreview) = Inl fetchError"
    by (simp add: fetchFail_def)
  have fm: "name fetchError \<noteq> ''TimeoutError''" "message fetchError = ''Failed to fetch''"
    by (simp_all add: fetchError_def)
  have m5: "message axios500 = ''Request failed with status code 500''"
    by (simp add: axios500_def)
  have c: "code axiosTimeout = Some ''ECONNABORTED''"
    by (simp add: axiosTimeout_def)
  have st: "activeStep atPreview = 2" "\<not> isReverso atPreview" "ocrData atPreview = None"
    by (simp_all add: atPreview_eval adopted_eval app0_def)
  note ok = process_ocr_cases [OF t, where fetchBlob = fetchOk and blob = imgS
      and backend = ocrBackendOk and b = browser0 and d = "()" and e = axiosTimeout
      and m = "[]"]
  note tm = process_ocr_cases [OF t, where fetchBlob = fetchOk and blob = imgS
      and backend = ocrBackendTimeout and b = browser0 and d = "()" and e = axiosTimeout
      and m = "[]"]
  note un = process_ocr_cases [OF t, where fetchBlob = fetchOk and blob = imgS
      and backend = ocrBackend401 and b = loggedIn and d = "()" and e = axios401
      and m = "[]"]
  note ot = process_ocr_cases [OF t, where fetchBlob = fetchOk and blob = imgS
      and backend = ocrBackend500 and b = browser0 and d = "()" and e = axios500
      and m = "[]"]
  note fe = process_ocr_cases [OF t, where fetchBlob = fetchFail and blob = imgS
      and backend = ocrBackendOk and b = browser0 and d = "()" and e = fetchError
      and m = "[]"]
  have 1: "handleProcessOCR fetchOk ocrBackendOk browser0 atPreview =
        ((atPreview\<lparr>ocrData := Some (), activeStep := 3, loading := False\<rparr>,
          [Toast Success ''OCR procesado correctamente'']), browser0)"
    using ok f by (simp add: ocrBackendOk_def)
  have 2: "handleProcessOCR fetchOk ocrBackendTimeout browser0 atPreview =
        ((atPreview\<lparr>loading := False\<rparr>, [Toast Error timeoutMessage]), browser0)"
    using tm f c by (simp add: ocrBackendTimeout_def)
  have 3: "fst (handleProcessOCR fetchOk ocrBackend401 loggedIn atPreview) =
        (atPreview\<lparr>loading := False\<rparr>,
         [Toast Error
            ''Error en OCR: Tu sesion ha expirado. Por favor, inicia sesion nuevamente.''])
     \<and> pathname (snd (handleProcessOCR fetchOk ocrBackend401 loggedIn atPreview)) = ''/login''"
    using un f sample_errors(1,2) by (simp add: ocrBackend401_def)
  have 4: "handleProcessOCR fetchOk ocrBackend500 browser0 atPreview =
        ((atPreview\<lparr>loading := False\<rparr>,
          [Toast Error ''Error en OCR: Request failed with status code 500'']), browser0)"
    using ot f sample_errors(3,4,5) m5 by (simp add: ocrBackend500_def)
  have 5: "handleProcessOCR fetchFail ocrBackendOk browser0 atPreview =
        ((atPreview\<lparr>loading := False\<rparr>, [Toast Error ''Error en OCR: Failed to fetch'']),
         browser0)"
    using fe ff fm by simp
  have u: "url (ocrRequest (isReverso atPreview) imgS browser0) = ''/ocr''"
    using ok st by simp
  show ?thesis using t f st u 1 2 3 4 5 by simp
qed

section \<open>Accepting a file\<close>

text \<open>
  C9 as stated fails: a GIF of three bytes is neither JPEG, PNG nor WEBP, and
  \<open>handleFileChange\<close> hands it to \<open>onImageSelect\<close>; \<open>App\<close> then adopts it.
\<close>

theorem gif_accepted:
  "fileType smallGif = ''image/gif''
   \<and> fileType smallGif \<notin> {''image/jpeg'', ''image/png'', ''image/webp''}
   \<and> fileSize smallGif = 3
   \<and> handleFileChange [smallGif] None = (Some smallGif, Some smallGif, [])
   \<and> imageSrc (fst (uploadFile readerOk [smallGif] app0)) = ''data:image/gif;base64,abc''
   \<and> activeStep (fst (uploadFile readerOk [smallGif] app0)) = 1"
  by (simp add: smallGif_def handleFileChange_def uploadFile_def handleImageSelect_def
      readerOk_def startsWith_def fileSize_def validDataUrl_def truthy_def app0_def)

text \<open>
  C9, amended. The first file offered is handed to \<open>onImageSelect\<close> if and only if its
  MIME type starts with \<open>image/\<close> and its size is at most 10 * 1024 * 1024 bytes. A file
  of an image type above that size is rejected with the size alert, and no reader is
  started for it; a file of any other type is rejected with the type alert, whatever its
  size. An accepted file goes on to \<open>handleImageSelect\<close>. With no file nothing happens.
\<close>

theorem file_accepted_iff:
  "(fst (snd (handleFileChange (f # fs) sel)) = Some f \<longleftrightarrow>
      startsWith (fileType f) ''image/'' \<and> fileSize f \<le> 10 * 1024 * 1024)
   \<and> (fst (snd (handleFileChange (f # fs) sel)) = None \<longleftrightarrow>
      \<not> (startsWith (fileType f) ''image/'' \<and> fileSize f \<le> 10 * 1024 * 1024))
   \<and> (startsWith (fileType f) ''image/'' \<and> fileSize f > 10 * 1024 * 1024 \<longrightarrow>
        handleFileChange (f # fs) sel =
          (sel, None, [Alert ''El archivo es demasiado grande. Maximo 10MB.''])
        \<and> uploadFile rd (f # fs) a =
          (a, [Alert ''El archivo es demasiado grande. Maximo 10MB.'']))
   \<and> (\<not> startsWith (fileType f) ''image/'' \<longrightarrow>
        handleFileChange (f # fs) sel =
          (sel, None, [Alert ''Por favor, selecciona un archivo de imagen (JPEG, PNG, etc.)''])
        \<and> uploadFile rd (f # fs) a =
          (a, [Alert ''Por favor, selecciona un archivo de imagen (JPEG, PNG, etc.)'']))
   \<and> (startsWith (fileType f) ''image/'' \<and> fileSize f \<le> 10 * 1024 * 1024 \<longrightarrow>
        uploadFile rd (f # fs) a = handleImageSelect rd f a)
   \<and> handleFileChange [] sel = (sel, None, [])"
  by (auto simp: handleFileChange_def uploadFile_def split: prod.splits)

theorem file_accepted_iff_witness:
  "startsWith (fileType smallJpeg) ''image/'' \<and> fileSize smallJpeg \<le> 10 * 1024 * 1024
   \<and> fst (snd (handleFileChange [smallJpeg] None)) = Some smallJpeg
   \<and> startsWith (fileType bigPng) ''image/'' \<and> fileSize bigPng > 10 * 1024 * 1024
   \<and> handleFileChange [bigPng] None =
        (None, None, [Alert ''El archivo es demasiado grande. Maximo 10MB.''])"
proof -
  have j: "startsWith (fileType smallJpeg) ''image/''"
    "fileSize smallJpeg \<le> 10 * 1024 * 1024"
    by (simp_all add: smallJpeg_def startsWith_def fileSize_def)
  have p1: "startsWith (fileType bigPng) ''image/''"
    by (simp add: bigPng_def startsWith_def)
  have "fileSize bigPng = 10 * 1024 * 1024 + 1"
    by (simp only: bigPng_def fileSize_def fileObj.simps length_replicate)
  then have p2: "fileSize bigPng > 10 * 1024 * 1024" by simp
  from file_accepted_iff [where f = smallJpeg and fs = "[]" and sel = None
      and rd = readerOk and a = app0]
    file_accepted_iff [where f = bigPng and fs = "[]" and sel = None
      and rd = readerOk and a = app0] j p1 p2
  show ?thesis by simp
qed

section \<open>The session\<close>

lemma digit_eval: "digitValue CHR ''1'' = Some 1" "digitValue CHR ''0'' = Some 0"
  by (simp_all add: digitValue_def)

lemma parse_1000000: "parseInt ''1000000'' = Some 1000000"
  by (simp add: parseInt_def isWhiteSpace_def startsWith_def digit_eval digitsToNat_def)

text \<open>
  C10. \<open>isSessionActive\<close> answers true if and only if a non-empty token and a non-empty
  expiry are stored, the expiry parses as an integer, and the current time is strictly
  less than that integer minus 60000. So from 60000 milliseconds before the stored
  expiry onwards it answers false, also while the current time is still before the
  expiry.
\<close>

theorem isSessionActive_iff:
  "(isSessionActive b now \<longleftrightarrow>
     (\<exists>token expiry expiryTime.
        localStorage b ''jwt_token'' = Some token \<and> token \<noteq> []
        \<and> localStorage b ''token_expiry'' = Some expiry \<and> expiry \<noteq> []
        \<and> parseInt expiry = Some expiryTime \<and> now < expiryTime - 60000))
   \<and> (localStorage b ''token_expiry'' = Some expiry \<and> parseInt expiry = Some expiryTime
        \<and> expiryTime - 60000 \<le> now \<longrightarrow> \<not> isSessionActive b now)"
  by (auto simp: isSessionActive_def truthy_def split: option.splits)

theorem isSessionActive_iff_witness:
  "localStorage loggedIn ''jwt_token'' = Some ''abc''
   \<and> localStorage loggedIn ''token_expiry'' = Some ''1000000''
   \<and> parseInt ''1000000'' = Some 1000000
   \<and> isSessionActive loggedIn 939999
   \<and> \<not> isSessionActive loggedIn 940000
   \<and> \<not> isSessionActive loggedIn 999999"
proof -
  have s: "localStorage loggedIn ''jwt_token'' = Some ''abc''"
    "localStorage loggedIn ''token_expiry'' = Some ''1000000''"
    by (simp_all add: loggedIn_def)
  from isSessionActive_iff [of loggedIn 939999 "''1000000''" 1000000]
    isSessionActive_iff [of loggedIn 940000 "''1000000''" 1000000]
    isSessionActive_iff [of loggedIn 999999 "''1000000''" 1000000] s parse_1000000
  show ?thesis by simp
qed

end
